theory Spec2Isabelle
  imports Main "HOL-Library.Word"
begin

section \<open>Machine types\<close>

text \<open>
  The shim layer targets a 64-bit platform: \<open>size_t\<close> is an unsigned 64-bit integer whose
  arithmetic wraps around, \<open>ptrdiff_t\<close> is the same bit pattern read in two's complement
  (compared with \<open>\<le>s\<close>), and a pointer is an address, the null pointer being address 0.
\<close>

type_synonym size_t = "64 word"
type_synonym ptrdiff_t = "64 word"
type_synonym ptr = "64 word"

definition NULL :: ptr where
  "NULL = 0"

definition SIZE_MAX :: size_t where
  "SIZE_MAX = - 1"

text \<open>The value of \<open>ENOMEM\<close> comes from the platform's \<open>errno.h\<close>.\<close>

definition ENOMEM :: int where
  "ENOMEM = 12"

section \<open>The C library underneath and the state of the process\<close>

text \<open>
  The allocator of the C library is not part of the repository. Each of its entry points
  is a function of the (abstract) heap that returns a pointer, possibly null, and the heap
  after the call. Nothing is assumed about them.
\<close>

record 'h libc =
  malloc :: "size_t \<Rightarrow> 'h \<Rightarrow> ptr \<times> 'h"
  calloc :: "size_t \<Rightarrow> size_t \<Rightarrow> 'h \<Rightarrow> ptr \<times> 'h"
  realloc :: "ptr \<Rightarrow> size_t \<Rightarrow> 'h \<Rightarrow> ptr \<times> 'h"
  strdup :: "ptr \<Rightarrow> 'h \<Rightarrow> ptr \<times> 'h"
  memcpy :: "ptr \<Rightarrow> ptr \<Rightarrow> size_t \<Rightarrow> 'h \<Rightarrow> 'h"

text \<open>A request made to the allocator, with the arguments it was given.\<close>

datatype heap_call =
    Malloc size_t
  | Calloc size_t size_t
  | Realloc ptr size_t
  | Strdup ptr

text \<open>
  The state of the process: the heap, what has been written to the standard error
  stream, the requests made to the allocator so far (oldest first), and \<open>errno\<close>.
\<close>

record 'h proc =
  heap :: 'h
  err_stream :: string
  heap_calls :: "heap_call list"
  errno :: int

text \<open>A call either returns a value to its caller or ends the process (\<open>abort\<close>).\<close>

datatype 'a outcome = Returned 'a | Aborted

section \<open>The functions of \<open>gnulib_stubs.c\<close>\<close>

definition gl_dynarray_resize ::
    "ptr \<Rightarrow> size_t \<Rightarrow> ptr \<Rightarrow> size_t \<Rightarrow> 'h proc \<Rightarrow> bool outcome \<times> 'h proc" where
  "gl_dynarray_resize list size' scratch element w = (Returned False, w)"

definition xalloc_die :: "'h proc \<Rightarrow> 'a outcome \<times> 'h proc" where
  "xalloc_die w =
     (Aborted, w\<lparr>err_stream := err_stream w @ ''grep: memory exhausted'' @ [CHR 0x0A]\<rparr>)"

definition xmalloc :: "'h libc \<Rightarrow> size_t \<Rightarrow> 'h proc \<Rightarrow> ptr outcome \<times> 'h proc" where
  "xmalloc L n w =
     (let (p, h) = malloc L n (heap w);
          w1 = w\<lparr>heap := h, heap_calls := heap_calls w @ [Malloc n]\<rparr>
      in if p = NULL \<and> n \<noteq> 0 then xalloc_die w1 else (Returned p, w1))"

definition xcalloc :: "'h libc \<Rightarrow> size_t \<Rightarrow> size_t \<Rightarrow> 'h proc \<Rightarrow> ptr outcome \<times> 'h proc" where
  "xcalloc L n s w =
     (let (p, h) = calloc L n s (heap w);
          w1 = w\<lparr>heap := h, heap_calls := heap_calls w @ [Calloc n s]\<rparr>
      in if p = NULL \<and> n \<noteq> 0 \<and> s \<noteq> 0 then xalloc_die w1 else (Returned p, w1))"

definition xrealloc :: "'h libc \<Rightarrow> ptr \<Rightarrow> size_t \<Rightarrow> 'h proc \<Rightarrow> ptr outcome \<times> 'h proc" where
  "xrealloc L p n w =
     (let (r, h) = realloc L p n (heap w);
          w1 = w\<lparr>heap := h, heap_calls := heap_calls w @ [Realloc p n]\<rparr>
      in if r = NULL \<and> n \<noteq> 0 then xalloc_die w1 else (Returned r, w1))"

definition xnmalloc :: "'h libc \<Rightarrow> size_t \<Rightarrow> size_t \<Rightarrow> 'h proc \<Rightarrow> ptr outcome \<times> 'h proc" where
  "xnmalloc L n s w = xmalloc L (n * s) w"

definition xzalloc :: "'h libc \<Rightarrow> size_t \<Rightarrow> 'h proc \<Rightarrow> ptr outcome \<times> 'h proc" where
  "xzalloc L n w = xcalloc L n 1 w"

definition xstrdup :: "'h libc \<Rightarrow> ptr \<Rightarrow> 'h proc \<Rightarrow> ptr outcome \<times> 'h proc" where
  "xstrdup L s w =
     (let (p, h) = strdup L s (heap w);
          w1 = w\<lparr>heap := h, heap_calls := heap_calls w @ [Strdup s]\<rparr>
      in if p = NULL then xalloc_die w1 else (Returned p, w1))"

definition xmemdup :: "'h libc \<Rightarrow> ptr \<Rightarrow> size_t \<Rightarrow> 'h proc \<Rightarrow> ptr outcome \<times> 'h proc" where
  "xmemdup L p s w =
     (case xmalloc L s w of
        (Aborted, w1) \<Rightarrow> (Aborted, w1)
      | (Returned r, w1) \<Rightarrow> (Returned r, w1\<lparr>heap := memcpy L r p s (heap w1)\<rparr>))"

text \<open>
  \<open>xpalloc\<close> reads the caller's element count through \<open>pn\<close> and writes the new one back
  before it reallocates: the model takes the stored count and returns the outcome, the
  count stored on exit and the state.
\<close>

definition xpalloc ::
    "'h libc \<Rightarrow> ptr \<Rightarrow> size_t \<Rightarrow> size_t \<Rightarrow> ptrdiff_t \<Rightarrow> size_t \<Rightarrow> 'h proc
      \<Rightarrow> ptr outcome \<times> size_t \<times> 'h proc" where
  "xpalloc L pa pn n_incr_min n_max s w =
     (let n = pn;
          n_incr = n;
          n_incr = (if n_incr < n_incr_min then n_incr_min else n_incr);
          n_incr = (if 0 \<le>s n_max \<and> n + n_incr > n_max then n_max - n else n_incr);
          new_n = n + n_incr;
          (r, w1) = xrealloc L pa (new_n * s) w
      in (r, new_n, w1))"

definition xreallocarray ::
    "'h libc \<Rightarrow> ptr \<Rightarrow> size_t \<Rightarrow> size_t \<Rightarrow> 'h proc \<Rightarrow> ptr outcome \<times> 'h proc" where
  "xreallocarray L p n s w =
     (if s \<noteq> 0 \<and> n > (- 1) div s then xalloc_die w else xrealloc L p (n * s) w)"

definition x2realloc ::
    "'h libc \<Rightarrow> ptr \<Rightarrow> size_t \<Rightarrow> 'h proc \<Rightarrow> ptr outcome \<times> size_t \<times> 'h proc" where
  "x2realloc L p pn w = xpalloc L p pn 1 (- 1) 1 w"

definition x2nrealloc ::
    "'h libc \<Rightarrow> ptr \<Rightarrow> size_t \<Rightarrow> size_t \<Rightarrow> 'h proc \<Rightarrow> ptr outcome \<times> size_t \<times> 'h proc" where
  "x2nrealloc L p pn s w = xpalloc L p pn 1 (- 1) s w"

section \<open>The function of \<open>gnulib_compat.h\<close>\<close>

definition reallocarray ::
    "'h libc \<Rightarrow> ptr \<Rightarrow> size_t \<Rightarrow> size_t \<Rightarrow> 'h proc \<Rightarrow> ptr outcome \<times> 'h proc" where
  "reallocarray L p nmemb size' w =
     (if nmemb \<noteq> 0 \<and> size' > SIZE_MAX div nmemb
      then (Returned NULL, w\<lparr>errno := ENOMEM\<rparr>)
      else (let (r, h) = realloc L p (nmemb * size') (heap w)
            in (Returned r, w\<lparr>heap := h, heap_calls := heap_calls w @ [Realloc p (nmemb * size')]\<rparr>)))"

section \<open>Concrete allocators and states used in the examples\<close>

text \<open>An allocator that never supplies a block, and one that hands back fixed addresses.\<close>

definition failing_libc :: "unit libc" where
  "failing_libc =
     \<lparr>malloc = (\<lambda>n h. (NULL, h)), calloc = (\<lambda>n s h. (NULL, h)),
      realloc = (\<lambda>p n h. (NULL, h)), strdup = (\<lambda>s h. (NULL, h)),
      memcpy = (\<lambda>d s n h. h)\<rparr>"

definition fixed_libc :: "unit libc" where
  "fixed_libc =
     \<lparr>malloc = (\<lambda>n h. (4096, h)), calloc = (\<lambda>n s h. (4096, h)),
      realloc = (\<lambda>p n h. (4096, h)), strdup = (\<lambda>s h. (4096, h)),
      memcpy = (\<lambda>d s n h. h)\<rparr>"

definition start :: "unit proc" where
  "start = \<lparr>heap = (), err_stream = [], heap_calls = [], errno = 0\<rparr>"

section \<open>Arithmetic of the size range\<close>

lemma mult_overflow_iff:
  fixes a b :: size_t
  shows "(b \<noteq> 0 \<and> a > (- 1) div b) \<longleftrightarrow> \<not> unat a * unat b < 2 ^ 64"
proof (cases "b = 0")
  case True
  then show ?thesis by simp
next
  case False
  then have pos: "0 < unat b" by (simp add: unat_gt_0)
  have "a > (- 1) div b \<longleftrightarrow> unat ((- 1 :: size_t) div b) < unat a"
    by (simp add: word_less_nat_alt)
  also have "\<dots> \<longleftrightarrow> (2 ^ 64 - 1) div unat b < unat a"
    by (simp add: unat_div unsigned_minus_1_eq_mask mask_eq_exp_minus_1)
  also have "\<dots> \<longleftrightarrow> 2 ^ 64 - 1 < unat a * unat b"
    using pos by (simp add: div_less_iff_less_mult)
  also have "\<dots> \<longleftrightarrow> \<not> unat a * unat b < 2 ^ 64"
    by auto
  finally show ?thesis using False by simp
qed

lemma mult_exact:
  fixes a b :: size_t
  shows "unat a * unat b < 2 ^ 64 \<Longrightarrow> unat (a * b) = unat a * unat b"
  using unat_mult_lem [of a b] by simp

lemma add_exact:
  fixes a b :: size_t
  shows "unat a + unat b < 2 ^ 64 \<Longrightarrow> unat (a + b) = unat a + unat b"
  using unat_add_lem [of a b] by simp

lemma unat_max:
  fixes a b :: size_t
  shows "unat (max a b) = max (unat a) (unat b)"
  by (simp add: max_def word_le_nat_alt)

lemma unat_min:
  fixes a b :: size_t
  shows "unat (min a b) = min (unat a) (unat b)"
  by (simp add: min_def word_le_nat_alt)

section \<open>The guards and the growth function, step by step\<close>

lemma xrealloc_calls:
  "heap_calls (snd (xrealloc L p n w)) = heap_calls w @ [Realloc p n]"
  by (simp add: xrealloc_def xalloc_die_def Let_def split: prod.split)

lemma xpalloc_count:
  "fst (snd (xpalloc L pa n n_incr_min n_max s w)) =
     (if 0 \<le>s n_max then min (n + max n n_incr_min) n_max else n + max n n_incr_min)"
  by (auto simp: xpalloc_def Let_def max_def min_def split: prod.split)

lemma xpalloc_unfold:
  "xpalloc L pa n n_incr_min n_max s w =
     (fst (xrealloc L pa (fst (snd (xpalloc L pa n n_incr_min n_max s w)) * s) w),
      fst (snd (xpalloc L pa n n_incr_min n_max s w)),
      snd (xrealloc L pa (fst (snd (xpalloc L pa n n_incr_min n_max s w)) * s) w))"
  by (simp add: xpalloc_def Let_def case_prod_beta)

lemma xpalloc_calls:
  "heap_calls (snd (snd (xpalloc L pa n n_incr_min n_max s w))) =
     heap_calls w @ [Realloc pa (fst (snd (xpalloc L pa n n_incr_min n_max s w)) * s)]"
  by (subst xpalloc_unfold) (simp add: xrealloc_calls)

lemma xmalloc_unfold:
  "xmalloc L n w =
     (if fst (malloc L n (heap w)) = NULL \<and> n \<noteq> 0
      then xalloc_die (w\<lparr>heap := snd (malloc L n (heap w)), heap_calls := heap_calls w @ [Malloc n]\<rparr>)
      else (Returned (fst (malloc L n (heap w))),
            w\<lparr>heap := snd (malloc L n (heap w)), heap_calls := heap_calls w @ [Malloc n]\<rparr>))"
  by (simp add: xmalloc_def Let_def case_prod_beta)

lemma xcalloc_unfold:
  "xcalloc L n s w =
     (if fst (calloc L n s (heap w)) = NULL \<and> n \<noteq> 0 \<and> s \<noteq> 0
      then xalloc_die (w\<lparr>heap := snd (calloc L n s (heap w)), heap_calls := heap_calls w @ [Calloc n s]\<rparr>)
      else (Returned (fst (calloc L n s (heap w))),
            w\<lparr>heap := snd (calloc L n s (heap w)), heap_calls := heap_calls w @ [Calloc n s]\<rparr>))"
  by (simp add: xcalloc_def Let_def case_prod_beta)

lemma xrealloc_unfold:
  "xrealloc L p n w =
     (if fst (realloc L p n (heap w)) = NULL \<and> n \<noteq> 0
      then xalloc_die (w\<lparr>heap := snd (realloc L p n (heap w)), heap_calls := heap_calls w @ [Realloc p n]\<rparr>)
      else (Returned (fst (realloc L p n (heap w))),
            w\<lparr>heap := snd (realloc L p n (heap w)), heap_calls := heap_calls w @ [Realloc p n]\<rparr>))"
  by (simp add: xrealloc_def Let_def case_prod_beta)

lemma xstrdup_unfold:
  "xstrdup L s w =
     (if fst (strdup L s (heap w)) = NULL
      then xalloc_die (w\<lparr>heap := snd (strdup L s (heap w)), heap_calls := heap_calls w @ [Strdup s]\<rparr>)
      else (Returned (fst (strdup L s (heap w))),
            w\<lparr>heap := snd (strdup L s (heap w)), heap_calls := heap_calls w @ [Strdup s]\<rparr>))"
  by (simp add: xstrdup_def Let_def case_prod_beta)

lemma xalloc_die_aborts:
  "fst (xalloc_die w) = Aborted"
  "err_stream (snd (xalloc_die w)) = err_stream w @ ''grep: memory exhausted'' @ [CHR 0x0A]"
  "heap_calls (snd (xalloc_die w)) = heap_calls w"
  "heap (snd (xalloc_die w)) = heap w"
  by (simp_all add: xalloc_die_def)

section \<open>The dynamic-array stub\<close>

text \<open>
  C9. \<open>gl_dynarray_resize\<close> reports failure (returns false) for every combination of its
  arguments, and leaves the whole state of the process, hence everything its pointer
  arguments refer to, as it was.
\<close>

theorem gl_dynarray_resize_always_false:
  "gl_dynarray_resize list size' scratch element w = (Returned False, w)"
  by (simp add: gl_dynarray_resize_def)

section \<open>The doubling entry points\<close>

text \<open>
  C10. For every pointer, stored capacity and element size, \<open>x2nrealloc p pn s\<close> is
  \<open>xpalloc p pn 1 (-1) s\<close> and \<open>x2realloc p pn\<close> is \<open>xpalloc p pn 1 (-1) 1\<close>: minimum
  increment 1 and no upper bound. The count stored on exit is the stored capacity plus
  the larger of that capacity and 1 (in wrapping arithmetic), so a stored capacity of 0
  becomes 1, with one reallocation request for one element.
\<close>

theorem doubling_specialises_xpalloc:
  "x2nrealloc L p pn s w = xpalloc L p pn 1 (- 1) s w
   \<and> x2realloc L p pn w = xpalloc L p pn 1 (- 1) 1 w
   \<and> fst (snd (x2nrealloc L p pn s w)) = pn + max pn 1
   \<and> fst (snd (x2realloc L p pn w)) = pn + max pn 1
   \<and> fst (snd (x2nrealloc L p 0 s w)) = 1
   \<and> fst (snd (x2realloc L p 0 w)) = 1
   \<and> heap_calls (snd (snd (x2nrealloc L p 0 s w))) = heap_calls w @ [Realloc p s]
   \<and> heap_calls (snd (snd (x2realloc L p 0 w))) = heap_calls w @ [Realloc p 1]"
  by (simp add: x2nrealloc_def x2realloc_def xpalloc_count xpalloc_calls)

section \<open>Sizing a request: the overflow test\<close>

text \<open>
  C6. The repository has no separate multiplication routine: the overflow test is
  written out in \<open>reallocarray\<close> and in \<open>xreallocarray\<close>, before the product is used.
  For every count and element size whose mathematical product fits the size range (is
  below \<open>2 ^ 64\<close>), no overflow is reported and the size handed on is the exact product.
  For every pair whose product exceeds the range, overflow is reported (\<open>reallocarray\<close>
  returns the null pointer with \<open>errno = ENOMEM\<close>, \<open>xreallocarray\<close> ends the process) and
  the allocator is not called.
\<close>

theorem overflow_test_exact:
  "(unat count * unat element_size < 2 ^ 64 \<longrightarrow>
      unat (count * element_size) = unat count * unat element_size
      \<and> reallocarray L p count element_size w =
          (Returned (fst (realloc L p (count * element_size) (heap w))),
           w\<lparr>heap := snd (realloc L p (count * element_size) (heap w)),
             heap_calls := heap_calls w @ [Realloc p (count * element_size)]\<rparr>)
      \<and> xreallocarray L p count element_size w = xrealloc L p (count * element_size) w)
   \<and> (\<not> unat count' * unat element_size' < 2 ^ 64 \<longrightarrow>
      reallocarray L p count' element_size' w = (Returned NULL, w\<lparr>errno := ENOMEM\<rparr>)
      \<and> fst (xreallocarray L p count' element_size' w) = Aborted
      \<and> heap_calls (snd (xreallocarray L p count' element_size' w)) = heap_calls w
      \<and> heap (snd (xreallocarray L p count' element_size' w)) = heap w)"
proof (intro conjI impI)
  assume fits: "unat count * unat element_size < 2 ^ 64"
  show "unat (count * element_size) = unat count * unat element_size"
    using fits by (rule mult_exact)
  from fits have "\<not> (count \<noteq> 0 \<and> element_size > (- 1) div count)"
    using mult_overflow_iff [of count element_size] by (simp add: mult.commute)
  then show "reallocarray L p count element_size w =
          (Returned (fst (realloc L p (count * element_size) (heap w))),
           w\<lparr>heap := snd (realloc L p (count * element_size) (heap w)),
             heap_calls := heap_calls w @ [Realloc p (count * element_size)]\<rparr>)"
    by (auto simp: reallocarray_def SIZE_MAX_def Let_def case_prod_beta)
  from fits have "\<not> (element_size \<noteq> 0 \<and> count > (- 1) div element_size)"
    using mult_overflow_iff [of element_size count] by simp
  then show "xreallocarray L p count element_size w = xrealloc L p (count * element_size) w"
    by (auto simp: xreallocarray_def)
next
  assume over: "\<not> unat count' * unat element_size' < 2 ^ 64"
  then have a: "count' \<noteq> 0 \<and> element_size' > (- 1) div count'"
    using mult_overflow_iff [of count' element_size'] by (simp add: mult.commute)
  then show "reallocarray L p count' element_size' w = (Returned NULL, w\<lparr>errno := ENOMEM\<rparr>)"
    by (auto simp: reallocarray_def SIZE_MAX_def)
  from over have b: "element_size' \<noteq> 0 \<and> count' > (- 1) div element_size'"
    using mult_overflow_iff [of element_size' count'] by simp
  then have c: "xreallocarray L p count' element_size' w = xalloc_die w"
    by (auto simp: xreallocarray_def)
  show "fst (xreallocarray L p count' element_size' w) = Aborted"
    by (simp add: c xalloc_die_aborts)
  show "heap_calls (snd (xreallocarray L p count' element_size' w)) = heap_calls w"
    by (simp add: c xalloc_die_aborts)
  show "heap (snd (xreallocarray L p count' element_size' w)) = heap w"
    by (simp add: c xalloc_die_aborts)
qed

theorem overflow_test_exact_witness:
  "unat (3 :: size_t) * unat (4 :: size_t) < 2 ^ 64
   \<and> unat (3 * 4 :: size_t) = 12
   \<and> reallocarray fixed_libc 7 3 4 start =
        (Returned 4096, start\<lparr>heap_calls := [Realloc 7 12]\<rparr>)
   \<and> xreallocarray fixed_libc 7 3 4 start =
        (Returned 4096, start\<lparr>heap_calls := [Realloc 7 12]\<rparr>)
   \<and> \<not> unat (9223372036854775808 :: size_t) * unat (2 :: size_t) < 2 ^ 64
   \<and> reallocarray fixed_libc 7 9223372036854775808 2 start =
        (Returned NULL, start\<lparr>errno := ENOMEM\<rparr>)
   \<and> fst (xreallocarray fixed_libc 7 9223372036854775808 2 start) = Aborted
   \<and> heap_calls (snd (xreallocarray fixed_libc 7 9223372036854775808 2 start)) = []"
  using overflow_test_exact [of 3 4 fixed_libc 7 start 9223372036854775808 2]
  by (simp add: xrealloc_unfold fixed_libc_def start_def NULL_def)

section \<open>The allocation guard\<close>

text \<open>
  What the guards do when the allocator supplies no block for the size they hand to it:
  they write the diagnostic and end the process. For \<open>xnmalloc\<close> that size is the product
  as the code computes it, in wrapping arithmetic.
\<close>

lemma xmalloc_exhausted:
  "n \<noteq> 0 \<Longrightarrow> fst (malloc L n (heap w)) = NULL \<Longrightarrow>
     fst (xmalloc L n w) = Aborted
     \<and> err_stream (snd (xmalloc L n w)) = err_stream w @ ''grep: memory exhausted'' @ [CHR 0x0A]"
  by (simp add: xmalloc_unfold xalloc_die_aborts)

lemma xrealloc_exhausted:
  "n \<noteq> 0 \<Longrightarrow> fst (realloc L p n (heap w)) = NULL \<Longrightarrow>
     fst (xrealloc L p n w) = Aborted
     \<and> err_stream (snd (xrealloc L p n w)) = err_stream w @ ''grep: memory exhausted'' @ [CHR 0x0A]"
  by (simp add: xrealloc_unfold xalloc_die_aborts)

lemma xcalloc_exhausted:
  "n \<noteq> 0 \<Longrightarrow> s \<noteq> 0 \<Longrightarrow> fst (calloc L n s (heap w)) = NULL \<Longrightarrow>
     fst (xcalloc L n s w) = Aborted
     \<and> err_stream (snd (xcalloc L n s w)) = err_stream w @ ''grep: memory exhausted'' @ [CHR 0x0A]"
  by (simp add: xcalloc_unfold xalloc_die_aborts)

lemma xstrdup_exhausted:
  "fst (strdup L str (heap w)) = NULL \<Longrightarrow>
     fst (xstrdup L str w) = Aborted
     \<and> err_stream (snd (xstrdup L str w)) = err_stream w @ ''grep: memory exhausted'' @ [CHR 0x0A]"
  by (simp add: xstrdup_unfold xalloc_die_aborts)

lemma xzalloc_exhausted:
  "n \<noteq> 0 \<Longrightarrow> fst (calloc L n 1 (heap w)) = NULL \<Longrightarrow>
     fst (xzalloc L n w) = Aborted
     \<and> err_stream (snd (xzalloc L n w)) = err_stream w @ ''grep: memory exhausted'' @ [CHR 0x0A]"
  by (simp add: xzalloc_def xcalloc_exhausted)

lemma xmemdup_exhausted:
  "n \<noteq> 0 \<Longrightarrow> fst (malloc L n (heap w)) = NULL \<Longrightarrow>
     fst (xmemdup L p n w) = Aborted
     \<and> err_stream (snd (xmemdup L p n w)) = err_stream w @ ''grep: memory exhausted'' @ [CHR 0x0A]"
  by (simp add: xmemdup_def xmalloc_unfold xalloc_die_def)

lemma xnmalloc_exhausted:
  "n * s \<noteq> 0 \<Longrightarrow> fst (malloc L (n * s) (heap w)) = NULL \<Longrightarrow>
     fst (xnmalloc L n s w) = Aborted
     \<and> err_stream (snd (xnmalloc L n s w)) = err_stream w @ ''grep: memory exhausted'' @ [CHR 0x0A]"
  by (simp add: xnmalloc_def xmalloc_exhausted)

lemma xreallocarray_exhausted:
  assumes "n \<noteq> 0" and "s \<noteq> 0" and "fst (realloc L p (n * s) (heap w)) = NULL"
  shows "fst (xreallocarray L p n s w) = Aborted
     \<and> err_stream (snd (xreallocarray L p n s w)) =
         err_stream w @ ''grep: memory exhausted'' @ [CHR 0x0A]"
proof (cases "s \<noteq> 0 \<and> n > (- 1) div s")
  case True
  then show ?thesis by (simp add: xreallocarray_def xalloc_die_aborts)
next
  case False
  then have "unat n * unat s < 2 ^ 64"
    using mult_overflow_iff [of s n] by simp
  then have "unat (n * s) = unat n * unat s" by (rule mult_exact)
  moreover have "0 < unat n" "0 < unat s" using assms by (simp_all add: unat_gt_0)
  ultimately have "n * s \<noteq> 0" by (metis mult_is_0 not_less_iff_gr_or_eq unat_0)
  then have "fst (xrealloc L p (n * s) w) = Aborted
     \<and> err_stream (snd (xrealloc L p (n * s) w)) =
         err_stream w @ ''grep: memory exhausted'' @ [CHR 0x0A]"
    using assms(3) by (rule xrealloc_exhausted)
  with False show ?thesis by (auto simp: xreallocarray_def)
qed

text \<open>
  C7 (the code at the failing input). A request for \<open>2 ^ 63\<close> elements of size 2 is not
  zero-sized. \<open>xnmalloc\<close> asks the allocator for the wrapped product, 0 bytes; when the
  allocator supplies no block, \<open>xnmalloc\<close> returns the null pointer to its caller, writes
  nothing to the standard error stream and does not end the process. \<open>xreallocarray\<close>,
  given the same count and element size, writes the diagnostic and ends the process, as
  \<open>xmalloc\<close> does for 8 bytes that the allocator does not supply.
\<close>

theorem xnmalloc_null_without_diagnostic:
  "(9223372036854775808 :: size_t) \<noteq> 0 \<and> (2 :: size_t) \<noteq> 0
   \<and> fst (malloc failing_libc (9223372036854775808 * 2) (heap start)) = NULL
   \<and> fst (xnmalloc failing_libc 9223372036854775808 2 start) = Returned NULL
   \<and> err_stream (snd (xnmalloc failing_libc 9223372036854775808 2 start)) = []
   \<and> fst (xreallocarray failing_libc NULL 9223372036854775808 2 start) = Aborted
   \<and> err_stream (snd (xreallocarray failing_libc NULL 9223372036854775808 2 start)) =
        ''grep: memory exhausted'' @ [CHR 0x0A]
   \<and> fst (xmalloc failing_libc 8 start) = Aborted
   \<and> err_stream (snd (xmalloc failing_libc 8 start)) = ''grep: memory exhausted'' @ [CHR 0x0A]"
  by (simp add: xnmalloc_def xreallocarray_def xalloc_die_def xmalloc_unfold
        failing_libc_def start_def)



section \<open>The growth policy\<close>

text \<open>
  C4. For every growth request in which the sum of the current count and the increment
  \<open>max current minimum_increment\<close> does not overflow, the count stored on exit is that sum
  when there is no maximum (\<open>n_max\<close> negative), and the smaller of that sum and the
  maximum when there is one; the single request made to the allocator is for that count
  times the element size. In particular a current count of 4 with minimum increment 1
  and no maximum gives 8, and a current count of 8 with minimum increment 1 and maximum
  10 gives 10.
\<close>

theorem xpalloc_new_capacity:
  "(unat n + max (unat n) (unat n_incr_min) < 2 ^ 64 \<longrightarrow>
      unat (fst (snd (xpalloc L pa n n_incr_min n_max s w))) =
        (if 0 \<le>s n_max
         then min (unat n + max (unat n) (unat n_incr_min)) (unat n_max)
         else unat n + max (unat n) (unat n_incr_min)))
   \<and> heap_calls (snd (snd (xpalloc L pa n n_incr_min n_max s w))) =
        heap_calls w @ [Realloc pa (fst (snd (xpalloc L pa n n_incr_min n_max s w)) * s)]
   \<and> fst (snd (xpalloc L pa 4 1 (- 1) s w)) = 8
   \<and> fst (snd (xpalloc L pa 8 1 10 s w)) = 10"
proof (intro conjI impI)
  assume "unat n + max (unat n) (unat n_incr_min) < 2 ^ 64"
  then have "unat n + unat (max n n_incr_min) < 2 ^ 64"
    by (simp add: unat_max)
  then have "unat (n + max n n_incr_min) = unat n + max (unat n) (unat n_incr_min)"
    by (simp add: add_exact unat_max)
  then show "unat (fst (snd (xpalloc L pa n n_incr_min n_max s w))) =
        (if 0 \<le>s n_max
         then min (unat n + max (unat n) (unat n_incr_min)) (unat n_max)
         else unat n + max (unat n) (unat n_incr_min))"
    by (simp add: xpalloc_count unat_min)
next
  show "heap_calls (snd (snd (xpalloc L pa n n_incr_min n_max s w))) =
        heap_calls w @ [Realloc pa (fst (snd (xpalloc L pa n n_incr_min n_max s w)) * s)]"
    by (rule xpalloc_calls)
next
  show "fst (snd (xpalloc L pa 4 1 (- 1) s w)) = 8"
    by (simp add: xpalloc_count word_sle_eq)
next
  show "fst (snd (xpalloc L pa 8 1 10 s w)) = 10"
    by (simp add: xpalloc_count word_sle_eq)
qed

theorem xpalloc_new_capacity_witness:
  "unat (8 :: size_t) + max (unat (8 :: size_t)) (unat (1 :: size_t)) < 2 ^ 64
   \<and> 0 \<le>s (10 :: ptrdiff_t)
   \<and> unat (fst (snd (xpalloc fixed_libc 4096 8 1 10 1 start))) = 10
   \<and> heap_calls (snd (snd (xpalloc fixed_libc 4096 8 1 10 1 start))) = [Realloc 4096 10]"
  using xpalloc_new_capacity [of 8 1 fixed_libc 4096 10 1 start]
  by (simp add: word_sle_eq start_def)

text \<open>
  When the current count does not exceed the maximum, if there is one, and the sum of
  the current count and the increment does not overflow, the count stored on exit is not
  below the previous one; with a maximum, the count stored on exit never exceeds it.
\<close>

lemma xpalloc_monotone_without_overflow:
  assumes "unat n + max (unat n) (unat n_incr_min) < 2 ^ 64"
    and "0 \<le>s n_max \<Longrightarrow> n \<le> n_max"
  shows "n \<le> fst (snd (xpalloc L pa n n_incr_min n_max s w))"
proof -
  from assms(1) have "unat n + unat (max n n_incr_min) < 2 ^ 64"
    by (simp add: unat_max)
  then have "unat (n + max n n_incr_min) = unat n + unat (max n n_incr_min)"
    by (rule add_exact)
  then have "n \<le> n + max n n_incr_min"
    by (simp add: word_le_nat_alt)
  with assms(2) show ?thesis
    by (simp add: xpalloc_count)
qed

lemma xpalloc_within_maximum:
  "0 \<le>s n_max \<Longrightarrow> fst (snd (xpalloc L pa n n_incr_min n_max s w)) \<le> n_max"
  by (simp add: xpalloc_count)

text \<open>
  C5 (the code at the failing inputs). The sum of the current count and the increment
  is not tested for overflow, so the count stored on exit can be below the previous one.
  With a current count of 5, not above the maximum 10, and minimum increment
  \<open>2 ^ 64 - 3\<close>, the sum wraps to 2, which is not above the maximum, and 2 is stored. With
  a current count of \<open>2 ^ 63\<close>, minimum increment 1 and no maximum, the sum wraps to 0, and
  0 is stored. Both calls return.
\<close>

theorem xpalloc_count_decreases:
  "0 \<le>s (10 :: ptrdiff_t) \<and> (5 :: size_t) \<le> 10
   \<and> xpalloc fixed_libc 4096 5 18446744073709551613 10 1 start =
        (Returned 4096, 2, start\<lparr>heap_calls := [Realloc 4096 2]\<rparr>)
   \<and> \<not> 5 \<le> fst (snd (xpalloc fixed_libc 4096 5 18446744073709551613 10 1 start))
   \<and> xpalloc fixed_libc 4096 9223372036854775808 1 (- 1) 8 start =
        (Returned 4096, 0, start\<lparr>heap_calls := [Realloc 4096 0]\<rparr>)
   \<and> \<not> 9223372036854775808 \<le>
        fst (snd (xpalloc fixed_libc 4096 9223372036854775808 1 (- 1) 8 start))"
  by (simp add: word_sle_eq xpalloc_def xrealloc_unfold fixed_libc_def start_def NULL_def
        Let_def)

text \<open>
  C1 (the code at the failing input). \<open>xpalloc\<close> has no way to tell its caller that the
  bound is reached. With a current count of 10, minimum increment 1 and maximum 10, the
  increment is clamped to 0: the count stored on exit is 10 again, a reallocation to 10
  elements is requested from the allocator, and the call returns the block as any
  successful growth does, although nothing has grown.
\<close>

theorem xpalloc_at_bound_no_growth:
  "0 \<le>s (10 :: ptrdiff_t)
   \<and> xpalloc fixed_libc 4096 10 1 10 1 start =
        (Returned 4096, 10, start\<lparr>heap_calls := [Realloc 4096 10]\<rparr>)
   \<and> heap_calls (snd (snd (xpalloc fixed_libc 4096 10 1 10 1 start))) \<noteq> heap_calls start"
  by (simp add: word_sle_eq xpalloc_def xrealloc_unfold fixed_libc_def start_def NULL_def Let_def)

text \<open>
  C2 (the code at the failing inputs). \<open>xpalloc\<close> adds and multiplies without a test. With
  a stored count of \<open>2 ^ 63\<close>, minimum increment 1, no maximum and element size 1, the new
  count wraps to 0 and a reallocation to 0 bytes is requested; with a stored count of
  \<open>2 ^ 32\<close> and element size \<open>2 ^ 32\<close>, the count becomes \<open>2 ^ 33\<close> and the byte size wraps to
  0. Both calls return. \<open>xreallocarray\<close>, given that count and element size, ends the
  process.
\<close>

theorem xpalloc_overflow_wraps:
  "xpalloc fixed_libc 4096 9223372036854775808 1 (- 1) 1 start =
     (Returned 4096, 0, start\<lparr>heap_calls := [Realloc 4096 0]\<rparr>)
   \<and> xpalloc fixed_libc 4096 4294967296 1 (- 1) 4294967296 start =
     (Returned 4096, 8589934592, start\<lparr>heap_calls := [Realloc 4096 0]\<rparr>)
   \<and> fst (xreallocarray fixed_libc 4096 8589934592 4294967296 start) = Aborted"
  by (simp add: word_sle_eq xpalloc_def xreallocarray_def xalloc_die_def xrealloc_unfold
        fixed_libc_def start_def NULL_def Let_def)

text \<open>
  C3 (the code at the failing input). \<open>xnmalloc\<close> multiplies without a test: for \<open>2 ^ 63\<close>
  elements of size 2 it asks the allocator for 0 bytes and returns what it gets, here
  the null pointer. \<open>xreallocarray\<close>, given the same count and element size, ends the
  process without calling the allocator.
\<close>

theorem xnmalloc_overflow_wraps:
  "xnmalloc failing_libc 9223372036854775808 2 start =
     (Returned NULL, start\<lparr>heap_calls := [Malloc 0]\<rparr>)
   \<and> fst (xreallocarray failing_libc 4096 9223372036854775808 2 start) = Aborted
   \<and> heap_calls (snd (xreallocarray failing_libc 4096 9223372036854775808 2 start)) = []"
  by (simp add: xnmalloc_def xreallocarray_def xalloc_die_def xmalloc_unfold
        failing_libc_def start_def)

end
